theory Spec2Isabelle
  imports Main "HOL-Library.AList" "HOL-Library.Char_ord" "HOL-Library.List_Lexorder"
begin

unbundle bit_operations_syntax

section \<open>Python strings and bytes\<close>

text \<open>
  A Python \<open>bytes\<close> value is a \<open>string\<close> (a list of 8-bit characters). A Python
  \<open>str\<close> is modelled as a \<open>string\<close> too, each character standing for the code point of
  the same number, so the model covers the code points below 256 (all of Latin-1, which
  is what the HTTP layer decodes header values to). \<open>str.encode()\<close> is UTF-8: a code
  point below 128 is one byte, the others up to 255 are two bytes.
\<close>

definition utf8_char :: "char \<Rightarrow> string" where
  "utf8_char c =
     (if (of_char c :: nat) < 128 then [c]
      else [char_of (192 + (of_char c :: nat) div 64), char_of (128 + (of_char c :: nat) mod 64)])"

definition encode :: "string \<Rightarrow> string" where
  "encode s = concat (map utf8_char s)"

text \<open>\<open>sep.join(parts)\<close>.\<close>

fun join :: "string \<Rightarrow> string list \<Rightarrow> string" where
  "join sep [] = []"
| "join sep [p] = p"
| "join sep (p # q # ps) = p @ sep @ join sep (q # ps)"

text \<open>\<open>s.split(c)\<close> for a separator of one character: the result is never empty.\<close>

fun split_chr :: "char \<Rightarrow> string \<Rightarrow> string list" where
  "split_chr c [] = [[]]"
| "split_chr c (x # xs) =
     (if x = c then [] # split_chr c xs
      else (case split_chr c xs of [] \<Rightarrow> [[x]] | p # ps \<Rightarrow> (x # p) # ps))"

text \<open>
  \<open>str.isspace\<close> on one code point below 256, and \<open>s.strip()\<close>.
\<close>

definition py_isspace :: "char \<Rightarrow> bool" where
  "py_isspace c =
     (let n = (of_char c :: nat)
      in (9 \<le> n \<and> n \<le> 13) \<or> (28 \<le> n \<and> n \<le> 32) \<or> n = 133 \<or> n = 160)"

definition strip :: "string \<Rightarrow> string" where
  "strip s = rev (dropWhile py_isspace (rev (dropWhile py_isspace s)))"

text \<open>\<open>str(n)\<close> for an integer, and \<open>int(s, 16)\<close> for a string of hex digits.\<close>

definition digit_char :: "nat \<Rightarrow> char" where
  "digit_char d = ''0123456789abcdef'' ! d"

function dec_digits :: "int \<Rightarrow> string \<Rightarrow> string" where
  "dec_digits n acc =
     (if n < 10 then digit_char (nat n) # acc
      else dec_digits (n div 10) (digit_char (nat (n mod 10)) # acc))"
  by pat_completeness auto
termination
  by (relation "measure (\<lambda>(n, acc). nat n)") auto

definition str_of_int :: "int \<Rightarrow> string" where
  "str_of_int n = (if n < 0 then CHR ''-'' # dec_digits (- n) [] else dec_digits n [])"

definition hex_value :: "char \<Rightarrow> int option" where
  "hex_value c =
     (let n = (of_char c :: int)
      in if 48 \<le> n \<and> n \<le> 57 then Some (n - 48)
         else if 97 \<le> n \<and> n \<le> 102 then Some (n - 87)
         else if 65 \<le> n \<and> n \<le> 70 then Some (n - 55)
         else None)"

fun int_base16_acc :: "int \<Rightarrow> string \<Rightarrow> int option" where
  "int_base16_acc acc [] = Some acc"
| "int_base16_acc acc (c # cs) =
     (case hex_value c of None \<Rightarrow> None | Some d \<Rightarrow> int_base16_acc (16 * acc + d) cs)"

definition int_base16 :: "string \<Rightarrow> int option" where
  "int_base16 s = (if s = [] then None else int_base16_acc 0 s)"

section \<open>SHA-256 (\<open>hashlib.sha256(b).hexdigest()\<close>)\<close>

text \<open>
  The hash of FIPS 180-4 on 32-bit words, written as integers with the wrap-around
  \<open>mod 2 ^ 32\<close> explicit. The round constants and the initial hash value are given
  in decimal.
\<close>

definition add32 :: "int \<Rightarrow> int \<Rightarrow> int" where
  "add32 x y = (x + y) mod 4294967296"

definition rotr :: "nat \<Rightarrow> int \<Rightarrow> int" where
  "rotr n x = x div 2 ^ n + (x mod 2 ^ n) * 2 ^ (32 - n)"

definition ch :: "int \<Rightarrow> int \<Rightarrow> int \<Rightarrow> int" where
  "ch x y z = (x AND y) XOR ((x XOR 4294967295) AND z)"

definition maj :: "int \<Rightarrow> int \<Rightarrow> int \<Rightarrow> int" where
  "maj x y z = (x AND y) XOR (x AND z) XOR (y AND z)"

definition bsig0 :: "int \<Rightarrow> int" where
  "bsig0 x = rotr 2 x XOR rotr 13 x XOR rotr 22 x"

definition bsig1 :: "int \<Rightarrow> int" where
  "bsig1 x = rotr 6 x XOR rotr 11 x XOR rotr 25 x"

definition ssig0 :: "int \<Rightarrow> int" where
  "ssig0 x = rotr 7 x XOR rotr 18 x XOR x div 2 ^ 3"

definition ssig1 :: "int \<Rightarrow> int" where
  "ssig1 x = rotr 17 x XOR rotr 19 x XOR x div 2 ^ 10"

definition sha256_k :: "int list" where
  "sha256_k = [
   1116352408, 1899447441, 3049323471, 3921009573, 961987163, 1508970993, 2453635748, 2870763221,
   3624381080, 310598401, 607225278, 1426881987, 1925078388, 2162078206, 2614888103, 3248222580,
   3835390401, 4022224774, 264347078, 604807628, 770255983, 1249150122, 1555081692, 1996064986,
   2554220882, 2821834349, 2952996808, 3210313671, 3336571891, 3584528711, 113926993, 338241895,
   666307205, 773529912, 1294757372, 1396182291, 1695183700, 1986661051, 2177026350, 2456956037,
   2730485921, 2820302411, 3259730800, 3345764771, 3516065817, 3600352804, 4094571909, 275423344,
   430227734, 506948616, 659060556, 883997877, 958139571, 1322822218, 1537002063, 1747873779,
   1955562222, 2024104815, 2227730452, 2361852424, 2428436474, 2756734187, 3204031479, 3329325298]"

definition sha256_h0 :: "int list" where
  "sha256_h0 = [1779033703, 3144134277, 1013904242, 2773480762,
                1359893119, 2600822924, 528734635, 1541459225]"

text \<open>One round: the working variables \<open>a .. h\<close> and the two temporaries.\<close>

definition round_fin :: "int \<Rightarrow> int \<Rightarrow> int list \<Rightarrow> int list" where
  "round_fin t1 t2 s =
     (case s of [a, b, c, d, e, f, g, h] \<Rightarrow> [add32 t1 t2, a, b, c, add32 d t1, e, f, g] | _ \<Rightarrow> s)"

fun round_step :: "int \<Rightarrow> int \<Rightarrow> int list \<Rightarrow> int list" where
  "round_step k w [a, b, c, d, e, f, g, h] =
     round_fin (add32 (add32 (add32 (add32 h (bsig1 e)) (ch e f g)) k) w)
               (add32 (bsig0 a) (maj a b c)) [a, b, c, d, e, f, g, h]"
| "round_step k w s = s"

text \<open>
  The sixty-four rounds of one block. The second argument is the window of the message
  schedule: the sixteen words \<open>W\<^sub>t .. W\<^sub>t\<^sub>+\<^sub>1\<^sub>5\<close>, the next word being
  \<open>\<sigma>\<^sub>1(W\<^sub>t\<^sub>+\<^sub>1\<^sub>4) + W\<^sub>t\<^sub>+\<^sub>9 + \<sigma>\<^sub>0(W\<^sub>t\<^sub>+\<^sub>1) + W\<^sub>t\<close>.
\<close>

fun rounds :: "int list \<Rightarrow> int list \<Rightarrow> int list \<Rightarrow> int list" where
  "rounds (k # ks) (w0 # w1 # w2 # w3 # w4 # w5 # w6 # w7 # w8 # w9 # w10 # w11 # w12 # w13 # w14 # w15 # rest) s =
     rounds ks (w1 # w2 # w3 # w4 # w5 # w6 # w7 # w8 # w9 # w10 # w11 # w12 # w13 # w14 # w15 #
                [add32 (add32 (add32 (ssig1 w14) w9) (ssig0 w1)) w0]) (round_step k w0 s)"
| "rounds ks ws s = s"

definition compress :: "int list \<Rightarrow> int list \<Rightarrow> int list" where
  "compress hs block = map2 add32 hs (rounds sha256_k block hs)"

fun be_words :: "int list \<Rightarrow> int list" where
  "be_words (a # b # c # d # rest) = (((a * 256 + b) * 256 + c) * 256 + d) # be_words rest"
| "be_words bs = []"

fun sha256_blocks :: "int list \<Rightarrow> int list \<Rightarrow> int list" where
  "sha256_blocks hs [] = hs"
| "sha256_blocks hs (w # ws) = sha256_blocks (compress hs (take 16 (w # ws))) (drop 15 ws)"

definition be_bytes8 :: "int \<Rightarrow> int list" where
  "be_bytes8 x = map (\<lambda>i. (x div 256 ^ i) mod 256) [7, 6, 5, 4, 3, 2, 1, 0]"

definition sha256_pad :: "int list \<Rightarrow> int list" where
  "sha256_pad bs =
     bs @ [128] @ replicate ((119 - length bs mod 64) mod 64) 0 @ be_bytes8 (8 * int (length bs))"

definition hex_word :: "int \<Rightarrow> string" where
  "hex_word w = map (\<lambda>i. digit_char (nat ((w div 16 ^ i) mod 16))) [7, 6, 5, 4, 3, 2, 1, 0]"

definition sha256_hex :: "string \<Rightarrow> string" where
  "sha256_hex b =
     concat (map hex_word (sha256_blocks sha256_h0 (be_words (sha256_pad (map of_char b)))))"

section \<open>JSON (\<open>json.dumps\<close>)\<close>

text \<open>
  The JSON values this program serialises: \<open>None\<close>, strings, and dictionaries with
  string keys. A dictionary is an association list in insertion order, its keys distinct.
\<close>

datatype json = JNull | JStr string | JObj "(string \<times> json) list"

text \<open>
  \<open>py_encode_basestring_ascii\<close>, the encoder of strings under the default
  \<open>ensure_ascii=True\<close>: the quote and the backslash are escaped, the control characters
  have their short escapes, and every other character outside the range from the space
  to the tilde is written as a \<open>u\<close> escape of four hex digits.
\<close>

definition hex4 :: "nat \<Rightarrow> string" where
  "hex4 n = [digit_char (n div 4096 mod 16), digit_char (n div 256 mod 16),
             digit_char (n div 16 mod 16), digit_char (n mod 16)]"

definition escape_char :: "char \<Rightarrow> string" where
  "escape_char c =
     (if c = CHR 0x22 then [CHR 0x5C, CHR 0x22]
      else if c = CHR 0x5C then [CHR 0x5C, CHR 0x5C]
      else if c = CHR 0x0A then [CHR 0x5C, CHR ''n'']
      else if c = CHR 0x0D then [CHR 0x5C, CHR ''r'']
      else if c = CHR 0x09 then [CHR 0x5C, CHR ''t'']
      else if c = CHR 0x08 then [CHR 0x5C, CHR ''b'']
      else if c = CHR 0x0C then [CHR 0x5C, CHR ''f'']
      else if 32 \<le> (of_char c :: nat) \<and> (of_char c :: nat) \<le> 126 then [c]
      else [CHR 0x5C, CHR ''u''] @ hex4 (of_char c))"

definition py_encode_basestring_ascii :: "string \<Rightarrow> string" where
  "py_encode_basestring_ascii s = [CHR 0x22] @ concat (map escape_char s) @ [CHR 0x22]"

text \<open>
  \<open>json.dumps(obj, sort_keys=sk)\<close> with the default separators: a comma and a space
  between items, a colon and a space between a key and its value.
\<close>

function json_dumps :: "bool \<Rightarrow> json \<Rightarrow> string" where
  "json_dumps sk JNull = ''null''"
| "json_dumps sk (JStr s) = py_encode_basestring_ascii s"
| "json_dumps sk (JObj items) =
     ''{'' @ join '', '' (map (\<lambda>(k, v). py_encode_basestring_ascii k @ '': '' @ json_dumps sk v)
                               (if sk then sort_key fst items else items)) @ ''}''"
  by pat_completeness auto
termination
proof (relation "measure (\<lambda>(sk, j). size j)")
  fix sk :: bool and items :: "(string \<times> json) list" and x :: "string \<times> json" and k v
  assume mem: "x \<in> set (if sk then sort_key fst items else items)" and x: "(k, v) = x"
  have "\<And>its. (k, v) \<in> set its \<Longrightarrow> size v < Suc (size_list (size_prod (\<lambda>_. 0) size) its)"
  proof -
    fix its :: "(string \<times> json) list"
    show "(k, v) \<in> set its \<Longrightarrow> size v < Suc (size_list (size_prod (\<lambda>_. 0) size) its)"
      by (induction its) auto
  qed
  moreover from mem x have "(k, v) \<in> set items"
    by (simp split: if_splits)
  ultimately show "((sk, v), (sk, JObj items)) \<in> measure (\<lambda>(sk, j). size j)"
    by simp
qed simp

section \<open>The server's repository store (\<open>svcs.py\<close>)\<close>

text \<open>
  A repository directory: \<open>meta.json\<close>, \<open>refs/main\<close> (absent, or its text), and the three
  object directories, each a map from the identifier in the file name to the file's
  content. A JSON file holds the value that \<open>json.load\<close> reads back from it. The store
  root \<open>SVCS_ROOT\<close> maps a repository name to its directory.
\<close>

record snapshot =
  snapshot_id :: string
  root_tree :: string
  parent :: "string option"
  message :: string
  timestamp :: string

record repo =
  meta :: "json option"
  ref_main :: "string option"
  blobs :: "string \<rightharpoonup> string"
  trees :: "string \<rightharpoonup> json"
  snapshots :: "string \<rightharpoonup> snapshot"

type_synonym svcs = "string \<rightharpoonup> repo"

datatype error = FileNotFoundError | FileExistsError | OSError | ValueError

text \<open>
  The object files a call writes. A fault plan says which of these writes raise
  \<open>OSError\<close>; a write that raises leaves no file.
\<close>

datatype target = BlobFile string | TreeFile string | SnapshotFile string

type_synonym faults = "target \<Rightarrow> bool"

definition no_faults :: faults where
  "no_faults = (\<lambda>t. False)"

definition empty_repo :: repo where
  "empty_repo = \<lparr>meta = None, ref_main = None, blobs = Map.empty, trees = Map.empty,
                  snapshots = Map.empty\<rparr>"


definition meta_json :: "string \<Rightarrow> json" where
  "meta_json name = JObj [(''name'', JStr name), (''created_at'', JStr ''2025-12-19T09:00:00Z'')]"


definition hash_content :: "string \<Rightarrow> string" where
  "hash_content content = sha256_hex content"

text \<open>
  \<open>_build_tree\<close>: the working directory is the list of its regular files in the order
  \<open>os.walk\<close> yields them, each with its path relative to the base and its bytes. A blob
  is written only when its file does not exist yet.
\<close>

definition blob_entry :: "string \<Rightarrow> json" where
  "blob_entry blob_id = JObj [(''type'', JStr ''blob''), (''id'', JStr blob_id)]"

fun build_entries ::
  "faults \<Rightarrow> (string \<times> string) list \<Rightarrow> (string \<times> json) list \<Rightarrow> repo
     \<Rightarrow> (error + (string \<times> json) list) \<times> repo" where
  "build_entries io [] entries r = (Inr entries, r)"
| "build_entries io ((rel_file, data) # files) entries r =
     (if blobs r (hash_content data) = None
      then (if io (BlobFile (hash_content data)) then (Inl OSError, r)
            else build_entries io files
                   (AList.update rel_file (blob_entry (hash_content data)) entries)
                   (r\<lparr>blobs := (blobs r)(hash_content data \<mapsto> data)\<rparr>))
      else build_entries io files
             (AList.update rel_file (blob_entry (hash_content data)) entries) r)"

definition build_tree ::
  "faults \<Rightarrow> (string \<times> string) list \<Rightarrow> repo \<Rightarrow> (error + json) \<times> repo" where
  "build_tree io work_dir r =
     (case build_entries io work_dir [] r of
        (Inl e, r1) \<Rightarrow> (Inl e, r1)
      | (Inr entries, r1) \<Rightarrow> (Inr (JObj [(''entries'', JObj entries)]), r1))"

text \<open>\<open>_store_tree\<close>: the identifier hashes the sorted dump, the file holds the tree.\<close>

definition tree_json :: "json \<Rightarrow> string" where
  "tree_json tree = encode (json_dumps True tree)"

definition store_tree :: "faults \<Rightarrow> json \<Rightarrow> repo \<Rightarrow> (error + string) \<times> repo" where
  "store_tree io tree r =
     (if io (TreeFile (sha256_hex (tree_json tree))) then (Inl OSError, r)
      else (Inr (sha256_hex (tree_json tree)),
            r\<lparr>trees := (trees r)(sha256_hex (tree_json tree) \<mapsto> tree)\<rparr>))"

text \<open>
  The identifier of a snapshot: the first eight hex digits of the SHA-256 of
  \<open>(tree_id + parent).encode()\<close>, read by \<open>int(_, 16)\<close> and printed in decimal after
  \<open>s_\<close>.
\<close>

definition snapshot_id_of :: "string \<Rightarrow> string \<Rightarrow> error + string" where
  "snapshot_id_of tree_id parent_str =
     (case int_base16 (take 8 (sha256_hex (encode (tree_id @ parent_str)))) of
        None \<Rightarrow> Inl ValueError
      | Some n \<Rightarrow> Inr (''s_'' @ str_of_int n))"

text \<open>
  The last two writes of \<open>save_snapshot\<close>: the snapshot file, then \<open>refs/main\<close>.
  \<open>parent or None\<close> stores \<open>None\<close> for the empty string.
\<close>

definition write_snapshot ::
  "faults \<Rightarrow> string \<Rightarrow> string \<Rightarrow> string \<Rightarrow> string \<Rightarrow> repo \<Rightarrow> (error + string) \<times> repo" where
  "write_snapshot io sid tree_id parent_str msg r =
     (if io (SnapshotFile sid) then (Inl OSError, r)
      else (Inr sid,
            r\<lparr>snapshots := (snapshots r)(sid \<mapsto>
                  \<lparr>snapshot_id = sid, root_tree = tree_id,
                   parent = (if parent_str = [] then None else Some parent_str),
                   message = msg, timestamp = ''2025-12-19T09:00:00Z''\<rparr>),
               ref_main := Some sid\<rparr>))"

definition read_parent :: "repo \<Rightarrow> string" where
  "read_parent r = (case ref_main r of None \<Rightarrow> [] | Some c \<Rightarrow> strip c)"

definition save_in_repo ::
  "faults \<Rightarrow> string \<Rightarrow> (string \<times> string) list \<Rightarrow> repo \<Rightarrow> (error + string) \<times> repo" where
  "save_in_repo io msg work_dir r =
     (case build_tree io work_dir r of
        (Inl e, r1) \<Rightarrow> (Inl e, r1)
      | (Inr tree, r1) \<Rightarrow>
          (case store_tree io tree r1 of
             (Inl e, r2) \<Rightarrow> (Inl e, r2)
           | (Inr tree_id, r2) \<Rightarrow>
               (case snapshot_id_of tree_id (read_parent r) of
                  Inl e \<Rightarrow> (Inl e, r2)
                | Inr sid \<Rightarrow> write_snapshot io sid tree_id (read_parent r) msg r2)))"

text \<open>
  \<open>save_snapshot\<close>: taking the lock opens \<open>repo.lock\<close> inside the repository directory,
  which raises when the directory does not exist. An exception leaves the files written
  so far.
\<close>

definition save_snapshot ::
  "faults \<Rightarrow> string \<Rightarrow> string \<Rightarrow> (string \<times> string) list \<Rightarrow> svcs \<Rightarrow> (error + string) \<times> svcs" where
  "save_snapshot io repo_name msg work_dir fs =
     (case fs repo_name of
        None \<Rightarrow> (Inl FileNotFoundError, fs)
      | Some r \<Rightarrow>
          (case save_in_repo io msg work_dir r of (res, r1) \<Rightarrow> (res, fs(repo_name \<mapsto> r1))))"



section \<open>The client's commit (\<open>cli/git.py\<close>)\<close>

text \<open>
  The part of the client's \<open>.anchor\<close> directory that \<open>commit\<close> reads and writes: the
  index (path to blob identifier), \<open>HEAD\<close>, the text files below \<open>.anchor\<close> by relative
  path (the refs), and the stored tree and snapshot objects.
\<close>

record client =
  index :: "(string \<times> string) list"
  head :: "string option"
  anchor_files :: "string \<rightharpoonup> string"
  client_trees :: "string \<rightharpoonup> string"
  client_snapshots :: "string \<rightharpoonup> snapshot"

definition index_entry :: "string \<Rightarrow> json" where
  "index_entry h = JObj [(''type'', JStr ''blob''), (''id'', JStr h)]"

definition build_tree_object :: "(string \<times> string) list \<Rightarrow> json" where
  "build_tree_object idx =
     JObj [(''entries'', JObj (fold (\<lambda>(path, h). AList.update path (index_entry h)) idx []))]"

text \<open>\<open>_store_object(root, "trees", content)\<close>: the hash and the file written under it.\<close>

definition store_object :: "json \<Rightarrow> client \<Rightarrow> string \<times> client" where
  "store_object content c =
     (sha256_hex (encode (json_dumps True content)),
      c\<lparr>client_trees := (client_trees c)(sha256_hex (encode (json_dumps True content)) \<mapsto>
           json_dumps True content)\<rparr>)"

text \<open>
  The parent that \<open>commit\<close> reads: \<open>HEAD\<close> names a file below \<open>.anchor\<close>, and the
  parent is that file's stripped text, \<open>None\<close> when the file is missing or empty.
\<close>

definition commit_parent :: "client \<Rightarrow> string option" where
  "commit_parent c =
     (case head c of
        None \<Rightarrow> None
      | Some h \<Rightarrow>
          (case anchor_files c (strip h) of
             None \<Rightarrow> None
           | Some t \<Rightarrow> if strip t = [] then None else Some (strip t)))"

definition commit_snapshot_id :: "string \<Rightarrow> string option \<Rightarrow> error + string" where
  "commit_snapshot_id tree_id par =
     (case int_base16
             (take 8 (sha256_hex (encode (tree_id @ (case par of None \<Rightarrow> [] | Some p \<Rightarrow> p))))) of
        None \<Rightarrow> Inl ValueError
      | Some n \<Rightarrow> Inr (''s_'' @ str_of_int n))"

text \<open>The ref update that ends \<open>commit\<close>; \<open>HEAD\<close> exists by then.\<close>

definition update_head :: "string \<Rightarrow> client \<Rightarrow> client" where
  "update_head sid c =
     (case head c of
        None \<Rightarrow> c\<lparr>anchor_files := (anchor_files c)(''refs/heads/main'' \<mapsto> sid)\<rparr>
      | Some h \<Rightarrow>
          if take 5 (strip h) = ''refs/''
          then c\<lparr>anchor_files := (anchor_files c)(strip h \<mapsto> sid)\<rparr>
          else c\<lparr>head := Some sid\<rparr>)"

text \<open>
  \<open>commit(message)\<close> without \<open>-a\<close>, at the given time stamp: \<open>Inr None\<close> is ``nothing
  to commit'', \<open>Inr (Some sid)\<close> the identifier of the snapshot written.
\<close>

definition commit :: "string \<Rightarrow> string \<Rightarrow> client \<Rightarrow> (error + string option) \<times> client" where
  "commit msg ts c =
     (if index c = [] then (Inr None, c)
      else
        (case store_object (build_tree_object (index c)) c of
           (tree_id, c1) \<Rightarrow>
             (case commit_snapshot_id tree_id (commit_parent c) of
                Inl e \<Rightarrow> (Inl e, if head c = None then c1\<lparr>head := Some ''refs/heads/main''\<rparr> else c1)
              | Inr sid \<Rightarrow>
                  (Inr (Some sid),
                   update_head sid
                     ((if head c = None then c1\<lparr>head := Some ''refs/heads/main''\<rparr> else c1)
                        \<lparr>client_snapshots := (client_snapshots c1)(sid \<mapsto>
                           \<lparr>snapshot_id = sid, root_tree = tree_id, parent = commit_parent c,
                            message = msg, timestamp = ts\<rparr>)\<rparr>)))))"

section \<open>Device fingerprint (\<open>fingerprint.py\<close>)\<close>

text \<open>
  A request: its headers by lower-case name, and the host of \<open>request.client\<close> when
  there is one.
\<close>

record request =
  headers :: "(string \<times> string) list"
  client_host :: "string option"

definition header_get :: "request \<Rightarrow> string \<Rightarrow> string \<Rightarrow> string" where
  "header_get req key dflt = (case map_of (headers req) key of None \<Rightarrow> dflt | Some v \<Rightarrow> v)"

definition partial_ip :: "string \<Rightarrow> string" where
  "partial_ip client_ip =
     (if CHR '':'' \<in> set client_ip then join '':'' (take 6 (split_chr CHR '':'' client_ip))
      else join ''.'' (take 3 (split_chr CHR ''.'' client_ip)))"

definition components :: "request \<Rightarrow> string list" where
  "components req =
     [header_get req ''user-agent'' []]
     @ (case client_host req of
          None \<Rightarrow> []
        | Some client_ip \<Rightarrow> if client_ip = [] then [] else [partial_ip client_ip])
     @ [header_get req ''accept-language'' []]
     @ [header_get req ''accept-encoding'' []]"

definition generate :: "request \<Rightarrow> string" where
  "generate req = sha256_hex (encode (join ''|'' (components req)))"

definition get_fingerprint :: "request \<Rightarrow> string" where
  "get_fingerprint req = generate req"

section \<open>Access tokens (\<open>dependencies.py\<close>)\<close>

text \<open>
  The claims of a token are a dictionary. The JWT library is a parameter: \<open>jwt_encode\<close>
  signs a payload, \<open>jwt_decode\<close> returns the payload of a token or raises
  \<open>ExpiredSignatureError\<close> or another \<open>PyJWTError\<close>. Times are in seconds.
\<close>

datatype claim = CStr string | CNum int | CBool bool

type_synonym payload = "string \<rightharpoonup> claim"

datatype jwt_error = ExpiredSignatureError | InvalidTokenError

record http_exception =
  status_code :: nat
  detail :: string

definition ACCESS_TOKEN_EXPIRE_MINUTES :: int where
  "ACCESS_TOKEN_EXPIRE_MINUTES = 5"

definition create_access_token ::
  "(payload \<Rightarrow> 'tok) \<Rightarrow> int \<Rightarrow> payload \<Rightarrow> string \<Rightarrow> int option \<Rightarrow> bool \<Rightarrow> 'tok" where
  "create_access_token jwt_encode now data fpt expires_delta step_up =
     jwt_encode
       ((data(''exp'' \<mapsto> CNum (now + (case expires_delta of
                                          None \<Rightarrow> ACCESS_TOKEN_EXPIRE_MINUTES * 60
                                        | Some d \<Rightarrow> d)),
              ''fpt'' \<mapsto> CStr fpt))
        ++ (if step_up then [''step_up'' \<mapsto> CBool True, ''step_up_at'' \<mapsto> CNum now]
            else Map.empty))"

definition verify_token ::
  "('tok \<Rightarrow> jwt_error + payload) \<Rightarrow> 'tok \<Rightarrow> request option \<Rightarrow> http_exception + payload" where
  "verify_token jwt_decode token req_opt =
     (case jwt_decode token of
        Inl ExpiredSignatureError \<Rightarrow> Inl \<lparr>status_code = 401, detail = ''Token expired''\<rparr>
      | Inl InvalidTokenError \<Rightarrow> Inl \<lparr>status_code = 401, detail = ''Invalid token''\<rparr>
      | Inr pl \<Rightarrow>
          (case req_opt of
             None \<Rightarrow> Inr pl
           | Some req \<Rightarrow>
               (case pl ''fpt'' of
                  None \<Rightarrow> Inr pl
                | Some f \<Rightarrow>
                    if f \<noteq> CStr (get_fingerprint req)
                    then Inl \<lparr>status_code = 401, detail = ''Device fingerprint mismatch''\<rparr>
                    else Inr pl)))"

section \<open>Authorization (\<open>authorization.py\<close>)\<close>

datatype permission =
    READ_REPO | WRITE_REPO | DELETE_REPO | CREATE_REPO | ADMIN_REPO
  | READ_PROFILE | WRITE_PROFILE | MANAGE_KEYS | EXPORT_KEYS
  | ADMIN_ALL
  | CREATE_SNAPSHOT | READ_SNAPSHOT | RESTORE_SNAPSHOT

datatype role = ADMIN | USER | GUEST

fun ROLE_PERMISSIONS :: "role \<Rightarrow> permission list" where
  "ROLE_PERMISSIONS ADMIN =
     [ADMIN_ALL, READ_REPO, WRITE_REPO, DELETE_REPO, CREATE_REPO, ADMIN_REPO, READ_PROFILE,
      WRITE_PROFILE, MANAGE_KEYS, EXPORT_KEYS, CREATE_SNAPSHOT, READ_SNAPSHOT, RESTORE_SNAPSHOT]"
| "ROLE_PERMISSIONS USER =
     [READ_REPO, WRITE_REPO, CREATE_REPO, READ_PROFILE, WRITE_PROFILE, MANAGE_KEYS,
      CREATE_SNAPSHOT, READ_SNAPSHOT]"
| "ROLE_PERMISSIONS GUEST = [READ_REPO, READ_PROFILE]"

text \<open>
  \<open>config.get(key, default)\<close> on the configuration values, and the admin's user name
  \<open>config.get("ADMIN_USERNAME", "admin")\<close>.
\<close>

definition config_get :: "(string \<rightharpoonup> string) \<Rightarrow> string \<Rightarrow> string \<Rightarrow> string" where
  "config_get cfg key dflt = (case cfg key of None \<Rightarrow> dflt | Some v \<Rightarrow> v)"

definition get_user_role :: "(string \<rightharpoonup> string) \<Rightarrow> claim \<Rightarrow> role" where
  "get_user_role cfg uname =
     (if uname = CStr (config_get cfg ''ADMIN_USERNAME'' ''admin'') then ADMIN else GUEST)"

text \<open>Python's truth value of a claim.\<close>

fun truthy :: "claim \<Rightarrow> bool" where
  "truthy (CStr s) = (s \<noteq> [])"
| "truthy (CNum n) = (n \<noteq> 0)"
| "truthy (CBool b) = b"

definition has_permission :: "(string \<rightharpoonup> string) \<Rightarrow> payload \<Rightarrow> permission \<Rightarrow> bool" where
  "has_permission cfg user perm =
     (case user ''sub'' of
        None \<Rightarrow> False
      | Some uname \<Rightarrow>
          if \<not> truthy uname then False
          else if ADMIN_ALL \<in> set (ROLE_PERMISSIONS (get_user_role cfg uname)) then True
          else perm \<in> set (ROLE_PERMISSIONS (get_user_role cfg uname)))"

section \<open>Refresh tokens (\<open>token_manager.py\<close>)\<close>

text \<open>
  The manager's dictionary \<open>self.tokens\<close>, from the hash of a token to its record, in
  insertion order. Times are in seconds.
\<close>

record token_data =
  username :: string
  fingerprint :: "string option"
  created_at :: int
  expires_at :: int
  used :: bool
  rotated_to :: "string option"

type_synonym tokens = "(string \<times> token_data) list"

text \<open>
  \<open>generate_refresh_token\<close>: the random token that \<open>secrets.token_urlsafe\<close> returns is
  an argument.
\<close>

definition generate_refresh_token ::
  "int \<Rightarrow> string \<Rightarrow> string \<Rightarrow> string option \<Rightarrow> tokens \<Rightarrow> string \<times> tokens" where
  "generate_refresh_token now token uname fp toks =
     (token,
      AList.update (sha256_hex (encode token))
        \<lparr>username = uname, fingerprint = fp, created_at = now,
         expires_at = now + 7 * 86400, used = False, rotated_to = None\<rparr> toks)"

text \<open>
  \<open>_invalidate_token_family\<close>: the record of the hash is deleted, then the loop runs
  over a copy of the items and calls the function again for every record whose
  \<open>rotated_to\<close> is the hash. The first argument bounds the depth of the calls, as the
  interpreter's recursion limit does; \<open>None\<close> is the limit exceeded.
\<close>

fun invalidate_token_family :: "nat \<Rightarrow> string \<Rightarrow> tokens \<Rightarrow> tokens option" where
  "invalidate_token_family 0 token_hash toks = None"
| "invalidate_token_family (Suc depth) token_hash toks =
     fold (\<lambda>(th, data) acc.
             case acc of
               None \<Rightarrow> None
             | Some t \<Rightarrow>
                 if rotated_to data = Some token_hash then invalidate_token_family depth th t
                 else Some t)
          (AList.delete token_hash toks) (Some (AList.delete token_hash toks))"

definition opt_truthy :: "string option \<Rightarrow> bool" where
  "opt_truthy s = (case s of None \<Rightarrow> False | Some v \<Rightarrow> v \<noteq> [])"

text \<open>
  The rotation that ends \<open>validate_and_rotate\<close>. \<open>token_data\<close> is the record object
  found at the start: it is marked used, the new token is stored, and \<open>rotated_to\<close> is
  set on the same object, which is no longer in the dictionary when the new token has
  the hash of the old one.
\<close>

definition rotate :: "int \<Rightarrow> string \<Rightarrow> string \<Rightarrow> string option \<Rightarrow> token_data \<Rightarrow> tokens \<Rightarrow> tokens" where
  "rotate now new_token token_hash fp td toks =
     (case generate_refresh_token now new_token (username td)
             (if opt_truthy fp then fp else fingerprint td)
             (AList.update token_hash (td\<lparr>used := True\<rparr>) toks) of
        (tok, toks1) \<Rightarrow>
          if sha256_hex (encode tok) = token_hash then toks1
          else AList.update token_hash
                 (td\<lparr>used := True, rotated_to := Some (sha256_hex (encode tok))\<rparr>) toks1)"

text \<open>
  \<open>validate_and_rotate(token, fingerprint)\<close> at time \<open>now\<close>: the result is \<open>None\<close> for
  an invalid token, or the user name and the new token.
\<close>

definition validate_and_rotate ::
  "nat \<Rightarrow> int \<Rightarrow> string \<Rightarrow> string \<Rightarrow> string option \<Rightarrow> tokens
     \<Rightarrow> ((string \<times> string) option \<times> tokens) option" where
  "validate_and_rotate depth now new_token token fp toks =
     (case map_of toks (sha256_hex (encode token)) of
        None \<Rightarrow> Some (None, toks)
      | Some td \<Rightarrow>
          if used td
          then map_option (Pair None) (invalidate_token_family depth (sha256_hex (encode token)) toks)
          else if expires_at td < now
          then Some (None, AList.delete (sha256_hex (encode token)) toks)
          else if opt_truthy fp \<and> opt_truthy (fingerprint td) \<and> fingerprint td \<noteq> fp
          then map_option (Pair None) (invalidate_token_family depth (sha256_hex (encode token)) toks)
          else Some (Some (username td, new_token),
                     rotate now new_token (sha256_hex (encode token)) fp td toks))"

section \<open>Notions used to state the properties\<close>

text \<open>
  The entries that \<open>_build_tree\<close> has recorded when its loop ends: one assignment
  \<open>entries[rel_file] = {"type": "blob", "id": blob_id}\<close> per file.
\<close>

definition written_entries ::
  "(string \<times> string) list \<Rightarrow> (string \<times> json) list \<Rightarrow> (string \<times> json) list" where
  "written_entries work_dir entries =
     fold (\<lambda>(rel_file, data). AList.update rel_file (blob_entry (hash_content data))) work_dir entries"

text \<open>The text of \<open>refs/main\<close>, and the root tree of the snapshot it names.\<close>

definition read_ref :: "string \<Rightarrow> svcs \<Rightarrow> string option" where
  "read_ref name fs = (case fs name of None \<Rightarrow> None | Some r \<Rightarrow> ref_main r)"

definition tree_of_ref :: "string \<Rightarrow> svcs \<Rightarrow> string option" where
  "tree_of_ref name fs =
     (case fs name of
        None \<Rightarrow> None
      | Some r \<Rightarrow>
          (case ref_main r of
             None \<Rightarrow> None
           | Some c \<Rightarrow> map_option root_tree (snapshots r (strip c))))"

text \<open>
  A sequence of calls of \<open>save_snapshot\<close> on one repository, each with its fault plan,
  message and working directory: the identifiers returned, in the order of the calls,
  and the final store; \<open>None\<close> when a call fails.
\<close>

fun save_all ::
  "string \<Rightarrow> (faults \<times> string \<times> (string \<times> string) list) list \<Rightarrow> svcs
     \<Rightarrow> (string list \<times> svcs) option" where
  "save_all name [] fs = Some ([], fs)"
| "save_all name ((io, msg, work_dir) # calls) fs =
     (case save_snapshot io name msg work_dir fs of
        (Inl e, fs1) \<Rightarrow> None
      | (Inr sid, fs1) \<Rightarrow>
          (case save_all name calls fs1 of
             None \<Rightarrow> None
           | Some (ids, fs2) \<Rightarrow> Some (sid # ids, fs2)))"

text \<open>
  A chain of snapshots, newest first: each identifier is non-empty and names a snapshot
  stored under it whose parent is the next identifier, the last one having no parent.
\<close>

fun linked :: "(string \<rightharpoonup> snapshot) \<Rightarrow> string list \<Rightarrow> bool" where
  "linked snaps [] = True"
| "linked snaps [i] =
     (i \<noteq> [] \<and> (case snaps i of None \<Rightarrow> False | Some s \<Rightarrow> snapshot_id s = i \<and> parent s = None))"
| "linked snaps (i # j # rest) =
     (i \<noteq> [] \<and> (case snaps i of None \<Rightarrow> False | Some s \<Rightarrow> snapshot_id s = i \<and> parent s = Some j)
      \<and> linked snaps (j # rest))"

text \<open>
  The text of a tree as \<open>json.dumps(tree, sort_keys=True)\<close> writes it, given the paths
  with their blob identifiers in the order of the paths: a space follows every colon and
  every comma between items.
\<close>

definition spaced_entry_text :: "string \<times> string \<Rightarrow> string" where
  "spaced_entry_text e =
     py_encode_basestring_ascii (fst e) @ [CHR '':'', CHR '' '', CHR ''{'', CHR 0x22] @ ''id''
     @ [CHR 0x22, CHR '':'', CHR '' ''] @ py_encode_basestring_ascii (snd e)
     @ [CHR '','', CHR '' '', CHR 0x22] @ ''type'' @ [CHR 0x22, CHR '':'', CHR '' '', CHR 0x22]
     @ ''blob'' @ [CHR 0x22, CHR ''}'']"

definition spaced_tree_text :: "(string \<times> string) list \<Rightarrow> string" where
  "spaced_tree_text sorted_entries =
     [CHR ''{'', CHR 0x22] @ ''entries'' @ [CHR 0x22, CHR '':'', CHR '' '', CHR ''{'']
     @ join [CHR '','', CHR '' ''] (map spaced_entry_text sorted_entries) @ [CHR ''}'', CHR ''}'']"

text \<open>The characters from the space to the tilde.\<close>

definition is_printable :: "char \<Rightarrow> bool" where
  "is_printable c = (32 \<le> (of_char c :: nat) \<and> (of_char c :: nat) \<le> 126)"

section \<open>Concrete stores and requests\<close>


text \<open>A request from a command-line client that sends no \<open>Accept-Language\<close>.\<close>

definition curl_request :: request where
  "curl_request = \<lparr>headers = [(''user-agent'', ''curl/8.0''), (''accept-encoding'', ''gzip'')],
                    client_host = Some ''192.168.1.77''\<rparr>"

text \<open>
  The store after \<open>init_repo("demo")\<close> on an empty root, and the two saves of scenario
  S1 and S2: a working directory that holds \<open>hello.txt\<close> with the bytes \<open>hi\n\<close>, saved
  twice with the message \<open>first\<close>.
\<close>

definition fresh_repo :: repo where
  "fresh_repo = empty_repo\<lparr>meta := Some (meta_json ''demo''), ref_main := Some []\<rparr>"

definition demo_store0 :: svcs where
  "demo_store0 = [''demo'' \<mapsto> fresh_repo]"

definition hello_wd :: "(string \<times> string) list" where
  "hello_wd = [(''hello.txt'', ''hi\<newline>'')]"

definition hello_store1 :: svcs where
  "hello_store1 = snd (save_snapshot no_faults ''demo'' ''first'' hello_wd demo_store0)"

definition hello_store2 :: svcs where
  "hello_store2 = snd (save_snapshot no_faults ''demo'' ''first'' hello_wd hello_store1)"

text \<open>
  Two saves on a fresh repository whose working directories hold one file \<open>a\<close>, with
  the bytes \<open>x33803\<close> at the first save and \<open>y169198\<close> at the second.
\<close>

definition first_wd :: "(string \<times> string) list" where
  "first_wd = [(''a'', ''x33803'')]"

definition second_wd :: "(string \<times> string) list" where
  "second_wd = [(''a'', ''y169198'')]"

definition twice_store1 :: svcs where
  "twice_store1 = snd (save_snapshot no_faults ''demo'' ''first'' first_wd demo_store0)"

definition twice_store2 :: svcs where
  "twice_store2 = snd (save_snapshot no_faults ''demo'' ''second'' second_wd twice_store1)"

section \<open>Digests and identifiers are well formed\<close>

lemma list8:
  "length s = 8 \<Longrightarrow> \<exists>a b c d e f g h. s = [a, b, c, d, e, f, g, h]"
  by (simp add: numeral_eq_Suc length_Suc_conv) blast

lemma length_round_step: "length s = 8 \<Longrightarrow> length (round_step k w s) = 8"
proof -
  assume "length s = 8"
  then obtain a b c d e f g h where "s = [a, b, c, d, e, f, g, h]"
    using list8 by blast
  then show ?thesis
    by (simp add: round_fin_def)
qed

lemma length_rounds: "length s = 8 \<Longrightarrow> length (rounds ks ws s) = 8"
  by (induction ks ws s rule: rounds.induct) (simp_all add: length_round_step)

lemma length_compress: "length hs = 8 \<Longrightarrow> length (compress hs block) = 8"
  by (simp add: compress_def length_rounds)

lemma length_sha256_blocks: "length hs = 8 \<Longrightarrow> length (sha256_blocks hs ws) = 8"
  by (induction hs ws rule: sha256_blocks.induct) (simp_all add: length_compress)

lemma hex_value_digit: "d < 16 \<Longrightarrow> hex_value (digit_char d) = Some (int d)"
proof -
  have "\<forall>d \<in> set [0..<16]. hex_value (digit_char d) = Some (int d)"
    by code_simp
  then show "d < 16 \<Longrightarrow> hex_value (digit_char d) = Some (int d)"
    by simp
qed

lemma int_base16_acc_hex:
  "\<forall>c \<in> set s. \<exists>d. hex_value c = Some d \<Longrightarrow> \<exists>n. int_base16_acc acc s = Some n"
  by (induction s arbitrary: acc) auto

lemma hex_word_digits: "c \<in> set (hex_word w) \<Longrightarrow> \<exists>d < 16. c = digit_char d"
proof -
  assume "c \<in> set (hex_word w)"
  then obtain i where c: "c = digit_char (nat (w div 16 ^ i mod 16))"
    unfolding hex_word_def set_map by blast
  have "nat (w div 16 ^ i mod 16) < 16"
    by (simp add: nat_less_iff)
  with c show ?thesis by blast
qed

lemma sha256_hex_prefix: "\<exists>w. take 8 (sha256_hex b) = hex_word w"
proof -
  have "length (sha256_blocks sha256_h0 (be_words (sha256_pad (map of_char b)))) = 8"
    by (rule length_sha256_blocks) (simp add: sha256_h0_def)
  then obtain a r where "sha256_blocks sha256_h0 (be_words (sha256_pad (map of_char b))) = a # r"
    using list8 by blast
  then have "take 8 (sha256_hex b) = hex_word a"
    by (simp add: sha256_hex_def hex_word_def)
  then show ?thesis ..
qed

lemma digest_prefix_int: "\<exists>n. int_base16 (take 8 (sha256_hex b)) = Some n"
proof -
  obtain w where w: "take 8 (sha256_hex b) = hex_word w"
    using sha256_hex_prefix by blast
  have "\<forall>c \<in> set (hex_word w). \<exists>d. hex_value c = Some d"
    using hex_word_digits hex_value_digit by blast
  then have "\<exists>n. int_base16_acc 0 (hex_word w) = Some n"
    by (rule int_base16_acc_hex)
  moreover have "hex_word w \<noteq> []"
    by (simp add: hex_word_def)
  ultimately show ?thesis
    by (simp add: int_base16_def w)
qed

lemma snapshot_id_of_total: "\<exists>n. snapshot_id_of tree_id par = Inr (''s_'' @ str_of_int n)"
  using digest_prefix_int [of "encode (tree_id @ par)"]
  by (auto simp: snapshot_id_of_def)

lemma digit_not_space: "d < 10 \<Longrightarrow> \<not> py_isspace (digit_char d)"
proof -
  have "\<forall>d \<in> set [0..<10]. \<not> py_isspace (digit_char d)"
    by code_simp
  then show "d < 10 \<Longrightarrow> \<not> py_isspace (digit_char d)"
    by simp
qed

lemma dec_digits_shape:
  "\<exists>ds. dec_digits n acc = ds @ acc \<and> ds \<noteq> [] \<and> (\<forall>c \<in> set ds. \<not> py_isspace c)"
proof (induction n acc rule: dec_digits.induct)
  case (1 n acc)
  show ?case
  proof (cases "n < 10")
    case True
    then have "nat n < 10" by simp
    then have "\<not> py_isspace (digit_char (nat n))"
      by (rule digit_not_space)
    with True show ?thesis
      by (subst dec_digits.simps) (simp add: exI [of _ "[digit_char (nat n)]"])
  next
    case False
    with "1.IH" obtain ds where ds:
      "dec_digits (n div 10) (digit_char (nat (n mod 10)) # acc) = ds @ digit_char (nat (n mod 10)) # acc"
      "ds \<noteq> []" "\<forall>c \<in> set ds. \<not> py_isspace c"
      by blast
    have "nat (n mod 10) < 10" by (simp add: nat_less_iff)
    then have "\<not> py_isspace (digit_char (nat (n mod 10)))"
      by (rule digit_not_space)
    with False ds show ?thesis
      by (subst dec_digits.simps) (simp add: exI [of _ "ds @ [digit_char (nat (n mod 10))]"])
  qed
qed

lemma minus_not_space: "\<not> py_isspace CHR ''-''"
  by code_simp

lemma str_of_int_shape: "str_of_int n \<noteq> [] \<and> (\<forall>c \<in> set (str_of_int n). \<not> py_isspace c)"
proof (cases "n < 0")
  case True
  obtain ds where "dec_digits (- n) [] = ds @ []" "ds \<noteq> []" "\<forall>c \<in> set ds. \<not> py_isspace c"
    using dec_digits_shape by blast
  with True minus_not_space show ?thesis
    by (simp add: str_of_int_def)
next
  case False
  obtain ds where "dec_digits n [] = ds @ []" "ds \<noteq> []" "\<forall>c \<in> set ds. \<not> py_isspace c"
    using dec_digits_shape by blast
  with False show ?thesis
    by (simp add: str_of_int_def)
qed

lemma strip_no_space: "\<forall>c \<in> set s. \<not> py_isspace c \<Longrightarrow> strip s = s"
proof -
  assume a: "\<forall>c \<in> set s. \<not> py_isspace c"
  then have "dropWhile py_isspace s = s"
    by (cases s) auto
  moreover from a have "dropWhile py_isspace (rev s) = rev s"
    by (cases "rev s") (auto simp: rev_eq_Cons_iff)
  ultimately show ?thesis
    by (simp add: strip_def)
qed

lemma s_not_space: "\<not> py_isspace CHR ''s'' \<and> \<not> py_isspace CHR ''_''"
  by code_simp

lemma strip_snapshot_id: "strip (''s_'' @ str_of_int n) = ''s_'' @ str_of_int n"
  using str_of_int_shape [of n] s_not_space by (intro strip_no_space) auto

lemma snapshot_id_of_shape:
  "snapshot_id_of tree_id par = Inr sid \<Longrightarrow> sid \<noteq> [] \<and> strip sid = sid"
proof -
  assume a: "snapshot_id_of tree_id par = Inr sid"
  obtain n where "snapshot_id_of tree_id par = Inr (''s_'' @ str_of_int n)"
    using snapshot_id_of_total by blast
  with a have sid: "sid = ''s_'' @ str_of_int n"
    by simp
  show ?thesis
    unfolding sid by (rule conjI) (simp, rule strip_snapshot_id)
qed

section \<open>Writing the objects of a snapshot\<close>

lemma build_entries_frame:
  "build_entries io work_dir entries r = (res, r1) \<Longrightarrow>
     ref_main r1 = ref_main r \<and> meta r1 = meta r \<and> trees r1 = trees r
     \<and> snapshots r1 = snapshots r \<and> (\<forall>k v. blobs r k = Some v \<longrightarrow> blobs r1 k = Some v)"
proof (induction io work_dir entries r rule: build_entries.induct)
  case (1 io entries r)
  then show ?case by simp
next
  case (2 io rel_file data files entries r)
  show ?case
  proof (cases "blobs r (hash_content data) = None")
    case True
    note absent = this
    show ?thesis
    proof (cases "io (BlobFile (hash_content data))")
      case True
      with absent "2.prems" show ?thesis by simp
    next
      case False
      with absent "2.prems" have rest:
        "build_entries io files (AList.update rel_file (blob_entry (hash_content data)) entries)
           (r\<lparr>blobs := (blobs r)(hash_content data \<mapsto> data)\<rparr>) = (res, r1)"
        by simp
      from "2.IH"(1) [OF absent False rest] have fr:
        "ref_main r1 = ref_main r \<and> meta r1 = meta r \<and> trees r1 = trees r
         \<and> snapshots r1 = snapshots r
         \<and> (\<forall>k v. ((blobs r)(hash_content data \<mapsto> data)) k = Some v \<longrightarrow> blobs r1 k = Some v)"
        by simp
      have "\<forall>k v. blobs r k = Some v \<longrightarrow> blobs r1 k = Some v"
      proof (intro allI impI)
        fix k v
        assume kv: "blobs r k = Some v"
        with absent have "k \<noteq> hash_content data" by auto
        with kv fr show "blobs r1 k = Some v" by simp
      qed
      with fr show ?thesis by simp
    qed
  next
    case False
    with "2.prems" "2.IH"(2) show ?thesis by auto
  qed
qed

lemma build_entries_error:
  "build_entries io work_dir entries r = (Inl e, r1) \<Longrightarrow> e = OSError"
  by (induction io work_dir entries r rule: build_entries.induct) (auto split: if_splits)

lemma build_entries_result:
  "build_entries io work_dir entries r = (Inr es, r1) \<Longrightarrow> es = written_entries work_dir entries"
  by (induction io work_dir entries r rule: build_entries.induct)
     (auto simp: written_entries_def split: if_splits)

lemma build_entries_blobs:
  "build_entries io work_dir entries r = (Inr es, r1) \<Longrightarrow>
     \<forall>(rel_file, data) \<in> set work_dir. blobs r1 (hash_content data) \<noteq> None"
proof (induction io work_dir entries r rule: build_entries.induct)
  case (1 io entries r)
  then show ?case by simp
next
  case (2 io rel_file data files entries r)
  show ?case
  proof (cases "blobs r (hash_content data) = None")
    case True
    with "2.prems" have nf: "\<not> io (BlobFile (hash_content data))"
      by (auto split: if_splits)
    with True "2.prems" have rest:
      "build_entries io files (AList.update rel_file (blob_entry (hash_content data)) entries)
         (r\<lparr>blobs := (blobs r)(hash_content data \<mapsto> data)\<rparr>) = (Inr es, r1)"
      by simp
    from build_entries_frame [OF rest] have "blobs r1 (hash_content data) = Some data"
      by simp
    with "2.IH"(1) [OF True nf rest] show ?thesis by simp
  next
    case False
    with "2.prems" have rest:
      "build_entries io files (AList.update rel_file (blob_entry (hash_content data)) entries) r
         = (Inr es, r1)"
      by simp
    from False obtain v where "blobs r (hash_content data) = Some v" by blast
    with build_entries_frame [OF rest] have "blobs r1 (hash_content data) = Some v"
      by blast
    with "2.IH"(2) [OF False rest] show ?thesis by simp
  qed
qed

lemma build_entries_attempts:
  "build_entries io work_dir entries r = (Inr es, r1) \<Longrightarrow>
     \<forall>(rel_file, data) \<in> set work_dir.
        blobs r (hash_content data) \<noteq> None \<or> \<not> io (BlobFile (hash_content data))"
proof (induction io work_dir entries r rule: build_entries.induct)
  case (1 io entries r)
  then show ?case by simp
next
  case (2 io rel_file data files entries r)
  show ?case
  proof (cases "blobs r (hash_content data) = None")
    case True
    with "2.prems" have nf: "\<not> io (BlobFile (hash_content data))"
      by (auto split: if_splits)
    with True "2.prems" have rest:
      "build_entries io files (AList.update rel_file (blob_entry (hash_content data)) entries)
         (r\<lparr>blobs := (blobs r)(hash_content data \<mapsto> data)\<rparr>) = (Inr es, r1)"
      by simp
    from "2.IH"(1) [OF True nf rest] nf show ?thesis
      by (auto split: if_splits)
  next
    case False
    with "2.prems" have rest:
      "build_entries io files (AList.update rel_file (blob_entry (hash_content data)) entries) r
         = (Inr es, r1)"
      by simp
    from "2.IH"(2) [OF False rest] False show ?thesis by auto
  qed
qed

lemma build_entries_no_faults:
  "\<forall>t. \<not> io t \<Longrightarrow> \<exists>es r1. build_entries io work_dir entries r = (Inr es, r1)"
  by (induction io work_dir entries r rule: build_entries.induct) auto

text \<open>What a successful \<open>save_in_repo\<close> has done.\<close>

lemma save_in_repo_success:
  assumes "save_in_repo io msg work_dir r = (Inr sid, r1)"
  shows "\<exists>tree_id.
           tree_id = sha256_hex (tree_json (JObj [(''entries'', JObj (written_entries work_dir []))]))
         \<and> snapshot_id_of tree_id (read_parent r) = Inr sid
         \<and> ref_main r1 = Some sid
         \<and> meta r1 = meta r
         \<and> snapshots r1 = (snapshots r)(sid \<mapsto>
               \<lparr>snapshot_id = sid, root_tree = tree_id,
                parent = (if read_parent r = [] then None else Some (read_parent r)),
                message = msg, timestamp = ''2025-12-19T09:00:00Z''\<rparr>)
         \<and> trees r1 = (trees r)(tree_id \<mapsto> JObj [(''entries'', JObj (written_entries work_dir []))])
         \<and> (\<forall>k v. blobs r k = Some v \<longrightarrow> blobs r1 k = Some v)
         \<and> (\<forall>(rel_file, data) \<in> set work_dir. blobs r1 (hash_content data) \<noteq> None)
         \<and> (\<forall>(rel_file, data) \<in> set work_dir.
               blobs r (hash_content data) \<noteq> None \<or> \<not> io (BlobFile (hash_content data)))
         \<and> \<not> io (TreeFile tree_id) \<and> \<not> io (SnapshotFile sid)"
proof -
  obtain res0 r0 where b: "build_entries io work_dir [] r = (res0, r0)"
    by (cases "build_entries io work_dir [] r")
  with assms obtain es where res0: "res0 = Inr es"
    by (cases res0) (simp_all add: save_in_repo_def build_tree_def)
  note b = b [unfolded res0]
  have es: "es = written_entries work_dir []"
    using b by (rule build_entries_result)
  note frame = build_entries_frame [OF b]
  let ?tree = "JObj [(''entries'', JObj es)]"
  let ?tid = "sha256_hex (tree_json ?tree)"
  have bt: "build_tree io work_dir r = (Inr ?tree, r0)"
    using b by (simp add: build_tree_def)
  from assms bt have nt: "\<not> io (TreeFile ?tid)"
    by (auto simp: save_in_repo_def store_tree_def split: if_splits)
  then have st: "store_tree io ?tree r0 = (Inr ?tid, r0\<lparr>trees := (trees r0)(?tid \<mapsto> ?tree)\<rparr>)"
    by (simp add: store_tree_def)
  obtain sid0 where sid0: "snapshot_id_of ?tid (read_parent r) = Inr sid0"
    using snapshot_id_of_total by blast
  from assms bt st sid0 have ws:
    "write_snapshot io sid0 ?tid (read_parent r) msg (r0\<lparr>trees := (trees r0)(?tid \<mapsto> ?tree)\<rparr>)
       = (Inr sid, r1)"
    by (simp add: save_in_repo_def)
  then have ns: "\<not> io (SnapshotFile sid0)" and same: "sid0 = sid"
    by (auto simp: write_snapshot_def split: if_splits)
  from ws ns same have r1: "r1 = r0\<lparr>trees := (trees r0)(?tid \<mapsto> ?tree),
        snapshots := (snapshots r0)(sid \<mapsto>
             \<lparr>snapshot_id = sid, root_tree = ?tid,
              parent = (if read_parent r = [] then None else Some (read_parent r)),
              message = msg, timestamp = ''2025-12-19T09:00:00Z''\<rparr>),
        ref_main := Some sid\<rparr>"
    by (simp add: write_snapshot_def)
  have blobs1: "\<forall>(rel_file, data) \<in> set work_dir. blobs r0 (hash_content data) \<noteq> None"
    using b by (rule build_entries_blobs)
  have att: "\<forall>(rel_file, data) \<in> set work_dir.
               blobs r (hash_content data) \<noteq> None \<or> \<not> io (BlobFile (hash_content data))"
    using b by (rule build_entries_attempts)
  show ?thesis
    apply (rule exI [of _ ?tid])
    using frame sid0 same nt ns blobs1 att
    apply (simp add: r1 es)
    done
qed

lemma save_in_repo_failure:
  assumes "save_in_repo io msg work_dir r = (Inl e, r1)"
  shows "e = OSError \<and> ref_main r1 = ref_main r \<and> snapshots r1 = snapshots r \<and> meta r1 = meta r"
proof -
  obtain res0 r0 where b: "build_entries io work_dir [] r = (res0, r0)"
    by (cases "build_entries io work_dir [] r")
  note frame = build_entries_frame [OF b]
  show ?thesis
  proof (cases res0)
    case (Inl e0)
    with b have "e0 = OSError"
      using build_entries_error by blast
    with assms b Inl frame show ?thesis
      by (simp add: save_in_repo_def build_tree_def)
  next
    case (Inr es)
    let ?tree = "JObj [(''entries'', JObj es)]"
    let ?tid = "sha256_hex (tree_json ?tree)"
    have bt: "build_tree io work_dir r = (Inr ?tree, r0)"
      using b Inr by (simp add: build_tree_def)
    obtain sid0 where sid0: "snapshot_id_of ?tid (read_parent r) = Inr sid0"
      using snapshot_id_of_total by blast
    from assms bt sid0 frame show ?thesis
      by (auto simp: save_in_repo_def store_tree_def write_snapshot_def split: if_splits)
  qed
qed

lemma save_in_repo_no_faults:
  assumes "\<forall>t. \<not> io t"
  shows "\<exists>sid r1. save_in_repo io msg work_dir r = (Inr sid, r1)"
proof -
  obtain es r0 where b: "build_entries io work_dir [] r = (Inr es, r0)"
    using build_entries_no_faults [OF assms] by blast
  obtain sid0 where "snapshot_id_of (sha256_hex (tree_json (JObj [(''entries'', JObj es)])))
      (read_parent r) = Inr sid0"
    using snapshot_id_of_total by blast
  with b assms show ?thesis
    by (simp add: save_in_repo_def build_tree_def store_tree_def write_snapshot_def)
qed

text \<open>
  Claim C5. Whatever object writes fail, \<open>save_snapshot\<close> on an existing repository
  either fails with the \<open>OSError\<close> of an object write, leaving \<open>refs/main\<close> and the
  snapshots as they were, or returns an identifier after it has written every blob of
  the working directory, the tree and the snapshot and then set \<open>refs/main\<close> to the
  identifier; a call that succeeds has met no failing write, and a call without failing
  writes succeeds.
\<close>

theorem save_snapshot_objects_before_ref:
  assumes "fs name = Some r" and "save_snapshot io name msg work_dir fs = (res, fs1)"
  shows "\<exists>r1. fs1 = fs(name \<mapsto> r1)
     \<and> (\<forall>e. res = Inl e \<longrightarrow>
            e = OSError \<and> ref_main r1 = ref_main r \<and> snapshots r1 = snapshots r)
     \<and> (\<forall>sid. res = Inr sid \<longrightarrow>
            ref_main r1 = Some sid
          \<and> (\<exists>s. snapshots r1 sid = Some s \<and> snapshot_id s = sid
                 \<and> trees r1 (root_tree s) \<noteq> None \<and> \<not> io (TreeFile (root_tree s)))
          \<and> (\<forall>(rel_file, data) \<in> set work_dir.
                blobs r1 (hash_content data) \<noteq> None
              \<and> (blobs r (hash_content data) \<noteq> None \<or> \<not> io (BlobFile (hash_content data))))
          \<and> \<not> io (SnapshotFile sid))
     \<and> ((\<forall>t. \<not> io t) \<longrightarrow> (\<exists>sid. res = Inr sid))"
proof -
  obtain res0 r1 where s: "save_in_repo io msg work_dir r = (res0, r1)"
    by (cases "save_in_repo io msg work_dir r")
  with assms have res: "res = res0" and fs1: "fs1 = fs(name \<mapsto> r1)"
    by (simp_all add: save_snapshot_def)
  have fail: "\<forall>e. res = Inl e \<longrightarrow>
            e = OSError \<and> ref_main r1 = ref_main r \<and> snapshots r1 = snapshots r"
    using save_in_repo_failure s res by blast
  have ok: "\<forall>sid. res = Inr sid \<longrightarrow>
            ref_main r1 = Some sid
          \<and> (\<exists>s. snapshots r1 sid = Some s \<and> snapshot_id s = sid
                 \<and> trees r1 (root_tree s) \<noteq> None \<and> \<not> io (TreeFile (root_tree s)))
          \<and> (\<forall>(rel_file, data) \<in> set work_dir.
                blobs r1 (hash_content data) \<noteq> None
              \<and> (blobs r (hash_content data) \<noteq> None \<or> \<not> io (BlobFile (hash_content data))))
          \<and> \<not> io (SnapshotFile sid)"
  proof (intro allI impI)
    fix sid
    assume "res = Inr sid"
    with s res have "save_in_repo io msg work_dir r = (Inr sid, r1)"
      by simp
    from save_in_repo_success [OF this] show
      "ref_main r1 = Some sid
          \<and> (\<exists>s. snapshots r1 sid = Some s \<and> snapshot_id s = sid
                 \<and> trees r1 (root_tree s) \<noteq> None \<and> \<not> io (TreeFile (root_tree s)))
          \<and> (\<forall>(rel_file, data) \<in> set work_dir.
                blobs r1 (hash_content data) \<noteq> None
              \<and> (blobs r (hash_content data) \<noteq> None \<or> \<not> io (BlobFile (hash_content data))))
          \<and> \<not> io (SnapshotFile sid)"
      by auto
  qed
  have nf: "(\<forall>t. \<not> io t) \<longrightarrow> (\<exists>sid. res = Inr sid)"
    using save_in_repo_no_faults [of io msg work_dir r] s res by auto
  from fs1 fail ok nf show ?thesis
    by blast
qed

section \<open>The effect of a save without faults\<close>

lemma save_snapshot_effect:
  assumes r: "fs name = Some r"
    and nf: "\<forall>t. \<not> io t"
    and sid: "snapshot_id_of
                (sha256_hex (tree_json (JObj [(''entries'', JObj (written_entries work_dir []))])))
                (read_parent r) = Inr sid"
  shows "\<exists>r1. save_snapshot io name msg work_dir fs = (Inr sid, fs(name \<mapsto> r1))
           \<and> ref_main r1 = Some sid
           \<and> snapshots r1 = (snapshots r)(sid \<mapsto>
               \<lparr>snapshot_id = sid,
                root_tree = sha256_hex (tree_json (JObj [(''entries'', JObj (written_entries work_dir []))])),
                parent = (if read_parent r = [] then None else Some (read_parent r)),
                message = msg, timestamp = ''2025-12-19T09:00:00Z''\<rparr>)
           \<and> trees r1 (sha256_hex (tree_json (JObj [(''entries'', JObj (written_entries work_dir []))])))
               = Some (JObj [(''entries'', JObj (written_entries work_dir []))])"
proof -
  obtain sid0 r1 where s: "save_in_repo io msg work_dir r = (Inr sid0, r1)"
    using save_in_repo_no_faults [OF nf] by blast
  from save_in_repo_success [OF s] sid have same: "sid0 = sid"
    by simp
  from save_in_repo_success [OF s] r s show ?thesis
    unfolding same by (intro exI [of _ r1]) (simp add: save_snapshot_def)
qed

lemma no_faults_none: "\<forall>t. \<not> no_faults t"
  by (simp add: no_faults_def)

lemma read_parent_fresh: "read_parent fresh_repo = []"
  by (simp add: read_parent_def fresh_repo_def strip_def)

lemma read_parent_saved:
  "ref_main r = Some sid \<Longrightarrow> snapshot_id_of tree_id par = Inr sid \<Longrightarrow> read_parent r = sid"
  by (simp add: read_parent_def snapshot_id_of_shape)

section \<open>Scenario S1 and S2: the same directory saved twice\<close>

lemma hello_blob:
  "hash_content ''hi\<newline>'' = ''98ea6e4f216f2fb4b69fff9b3a44842c38686ca685f3f55dc48c5d3fb1107be4''"
  by code_simp

lemma hello_entries:
  "written_entries hello_wd []
     = [(''hello.txt'', blob_entry ''98ea6e4f216f2fb4b69fff9b3a44842c38686ca685f3f55dc48c5d3fb1107be4'')]"
  by (simp add: written_entries_def hello_wd_def hello_blob)

lemma hello_tree_id:
  "sha256_hex (tree_json (JObj [(''entries'', JObj
       [(''hello.txt'', blob_entry ''98ea6e4f216f2fb4b69fff9b3a44842c38686ca685f3f55dc48c5d3fb1107be4'')])]))
     = ''e0e4c2a8fe9dcc6209a50aa7715fa1ee025dbd598566ccd02e26a1cbae6edfa5''"
  by code_simp

lemma hello_first_id:
  "snapshot_id_of ''e0e4c2a8fe9dcc6209a50aa7715fa1ee025dbd598566ccd02e26a1cbae6edfa5'' []
     = Inr ''s_181379010''"
  by code_simp

lemma hello_second_id:
  "snapshot_id_of ''e0e4c2a8fe9dcc6209a50aa7715fa1ee025dbd598566ccd02e26a1cbae6edfa5'' ''s_181379010''
     = Inr ''s_64290475''"
  by code_simp

lemma hello_save1:
  "\<exists>r1. save_snapshot no_faults ''demo'' ''first'' hello_wd demo_store0
           = (Inr ''s_181379010'', demo_store0(''demo'' \<mapsto> r1))
       \<and> hello_store1 = demo_store0(''demo'' \<mapsto> r1)
       \<and> ref_main r1 = Some ''s_181379010''
       \<and> snapshots r1 ''s_181379010''
           = Some \<lparr>snapshot_id = ''s_181379010'',
                   root_tree = ''e0e4c2a8fe9dcc6209a50aa7715fa1ee025dbd598566ccd02e26a1cbae6edfa5'',
                   parent = None, message = ''first'', timestamp = ''2025-12-19T09:00:00Z''\<rparr>"
proof -
  have r: "demo_store0 ''demo'' = Some fresh_repo"
    by (simp add: demo_store0_def)
  have sid: "snapshot_id_of
      (sha256_hex (tree_json (JObj [(''entries'', JObj (written_entries hello_wd []))])))
      (read_parent fresh_repo) = Inr ''s_181379010''"
    by (simp only: hello_entries hello_tree_id read_parent_fresh hello_first_id)
  from save_snapshot_effect [where fs = demo_store0 and name = "''demo''" and r = fresh_repo
      and io = no_faults and work_dir = hello_wd and sid = "''s_181379010''" and msg = "''first''",
      OF r no_faults_none sid]
  obtain r1 where
    "save_snapshot no_faults ''demo'' ''first'' hello_wd demo_store0
       = (Inr ''s_181379010'', demo_store0(''demo'' \<mapsto> r1))"
    "ref_main r1 = Some ''s_181379010''"
    "snapshots r1 = (snapshots fresh_repo)(''s_181379010'' \<mapsto>
               \<lparr>snapshot_id = ''s_181379010'',
                root_tree = sha256_hex (tree_json (JObj [(''entries'', JObj (written_entries hello_wd []))])),
                parent = (if read_parent fresh_repo = [] then None else Some (read_parent fresh_repo)),
                message = ''first'', timestamp = ''2025-12-19T09:00:00Z''\<rparr>)"
    by blast
  then show ?thesis
    by (intro exI [of _ r1])
       (simp add: hello_store1_def hello_entries hello_tree_id read_parent_fresh)
qed

lemma hello_save2:
  "\<exists>r2. save_snapshot no_faults ''demo'' ''first'' hello_wd hello_store1
           = (Inr ''s_64290475'', hello_store1(''demo'' \<mapsto> r2))
       \<and> hello_store2 = hello_store1(''demo'' \<mapsto> r2)
       \<and> ref_main r2 = Some ''s_64290475''"
proof -
  obtain r1 where r1: "hello_store1 = demo_store0(''demo'' \<mapsto> r1)"
    "ref_main r1 = Some ''s_181379010''"
    using hello_save1 by blast
  have r: "hello_store1 ''demo'' = Some r1"
    by (simp add: r1)
  have par: "read_parent r1 = ''s_181379010''"
    using r1(2) hello_first_id by (rule read_parent_saved)
  have sid: "snapshot_id_of
      (sha256_hex (tree_json (JObj [(''entries'', JObj (written_entries hello_wd []))])))
      (read_parent r1) = Inr ''s_64290475''"
    by (simp only: hello_entries hello_tree_id par hello_second_id)
  from save_snapshot_effect [where fs = hello_store1 and name = "''demo''" and r = r1
      and io = no_faults and work_dir = hello_wd and sid = "''s_64290475''" and msg = "''first''",
      OF r no_faults_none sid]
  obtain r2 where
    "save_snapshot no_faults ''demo'' ''first'' hello_wd hello_store1
       = (Inr ''s_64290475'', hello_store1(''demo'' \<mapsto> r2))"
    "ref_main r2 = Some ''s_64290475''"
    by blast
  then show ?thesis
    by (intro exI [of _ r2]) (simp add: hello_store2_def)
qed

text \<open>
  Claim C2, as stated, fails in scenario S2: the second save of the unchanged directory
  returns another identifier than the first, and \<open>refs/main\<close> changes.
\<close>

theorem second_save_new_id:
  "fst (save_snapshot no_faults ''demo'' ''first'' hello_wd hello_store1)
     \<noteq> fst (save_snapshot no_faults ''demo'' ''first'' hello_wd demo_store0)
   \<and> read_ref ''demo'' hello_store2 \<noteq> read_ref ''demo'' hello_store1"
proof -
  obtain r1 where r1:
    "save_snapshot no_faults ''demo'' ''first'' hello_wd demo_store0
       = (Inr ''s_181379010'', demo_store0(''demo'' \<mapsto> r1))"
    "hello_store1 = demo_store0(''demo'' \<mapsto> r1)" "ref_main r1 = Some ''s_181379010''"
    using hello_save1 by blast
  obtain r2 where r2:
    "save_snapshot no_faults ''demo'' ''first'' hello_wd hello_store1
       = (Inr ''s_64290475'', hello_store1(''demo'' \<mapsto> r2))"
    "hello_store2 = hello_store1(''demo'' \<mapsto> r2)" "ref_main r2 = Some ''s_64290475''"
    using hello_save2 by blast
  have "read_ref ''demo'' hello_store1 = Some ''s_181379010''"
    by (simp add: read_ref_def r1(2) r1(3))
  moreover have "read_ref ''demo'' hello_store2 = Some ''s_64290475''"
    by (simp add: read_ref_def r2(2) r2(3))
  ultimately show ?thesis
    by (simp add: r1(1) r2(1))
qed

text \<open>
  Claim C2, amended. The identifier that \<open>save_snapshot\<close> returns is determined by the
  working directory and the text of \<open>refs/main\<close>: two successful calls with the same
  working directory, on repositories whose \<open>refs/main\<close> read the same, return the same
  identifier, whatever the messages and the objects already stored. A second call in
  succession reads the first identifier as parent: it returns the identifier computed
  from the same tree and that parent, and sets \<open>refs/main\<close> to it.
\<close>

theorem save_snapshot_deterministic:
  assumes "fs name = Some r" and "fs' name' = Some r'"
    and "ref_main r = ref_main r'"
    and "save_snapshot io name msg work_dir fs = (Inr sid, fs1)"
    and "save_snapshot io' name' msg' work_dir fs' = (Inr sid', fs1')"
    and "save_snapshot io2 name msg work_dir fs1 = (Inr sid2, fs2)"
  shows "sid' = sid
       \<and> (\<exists>tree_id. snapshot_id_of tree_id (read_parent r) = Inr sid
              \<and> snapshot_id_of tree_id sid = Inr sid2
              \<and> tree_of_ref name fs1 = Some tree_id \<and> tree_of_ref name fs2 = Some tree_id)
       \<and> read_ref name fs1 = Some sid \<and> read_ref name fs2 = Some sid2"
proof -
  let ?tid = "sha256_hex (tree_json (JObj [(''entries'', JObj (written_entries work_dir []))]))"
  obtain r1 where s1: "save_in_repo io msg work_dir r = (Inr sid, r1)" and fs1: "fs1 = fs(name \<mapsto> r1)"
    using assms(1,4) by (auto simp: save_snapshot_def split: prod.splits)
  obtain r1' where s1': "save_in_repo io' msg' work_dir r' = (Inr sid', r1')"
    using assms(2,5) by (auto simp: save_snapshot_def split: prod.splits)
  have one: "snapshot_id_of ?tid (read_parent r) = Inr sid" and ref1: "ref_main r1 = Some sid"
    and snap1: "snapshots r1 sid \<noteq> None \<and> map_option root_tree (snapshots r1 sid) = Some ?tid"
    using save_in_repo_success [OF s1] by simp_all
  have one': "snapshot_id_of ?tid (read_parent r') = Inr sid'"
    using save_in_repo_success [OF s1'] by simp
  have "read_parent r = read_parent r'"
    using assms(3) by (simp add: read_parent_def)
  with one one' have same: "sid' = sid"
    by simp
  have par1: "read_parent r1 = sid"
    using ref1 one by (rule read_parent_saved)
  have "fs1 name = Some r1"
    by (simp add: fs1)
  then obtain r2 where s2: "save_in_repo io2 msg work_dir r1 = (Inr sid2, r2)"
    and fs2: "fs2 = fs1(name \<mapsto> r2)"
    using assms(6) by (auto simp: save_snapshot_def split: prod.splits)
  have two: "snapshot_id_of ?tid sid = Inr sid2" and ref2: "ref_main r2 = Some sid2"
    and snap2: "map_option root_tree (snapshots r2 sid2) = Some ?tid"
    using save_in_repo_success [OF s2] by (simp_all add: par1)
  have strip1: "strip sid = sid" and strip2: "strip sid2 = sid2"
    using one two snapshot_id_of_shape by blast+
  have t1: "tree_of_ref name fs1 = Some ?tid"
    using snap1 by (simp add: tree_of_ref_def fs1 ref1 strip1)
  have t2: "tree_of_ref name fs2 = Some ?tid"
    using snap2 by (simp add: tree_of_ref_def fs2 ref2 strip2)
  have "read_ref name fs1 = Some sid" "read_ref name fs2 = Some sid2"
    by (simp_all add: read_ref_def fs1 fs2 ref1 ref2)
  with same one two t1 t2 show ?thesis
    by blast
qed

theorem save_snapshot_deterministic_witness:
  "demo_store0 ''demo'' = Some fresh_repo
   \<and> save_snapshot no_faults ''demo'' ''first'' hello_wd demo_store0 = (Inr ''s_181379010'', hello_store1)
   \<and> save_snapshot no_faults ''demo'' ''first'' hello_wd hello_store1 = (Inr ''s_64290475'', hello_store2)
   \<and> snapshot_id_of ''e0e4c2a8fe9dcc6209a50aa7715fa1ee025dbd598566ccd02e26a1cbae6edfa5'' ''s_181379010''
       = Inr ''s_64290475''
   \<and> tree_of_ref ''demo'' hello_store2
       = Some ''e0e4c2a8fe9dcc6209a50aa7715fa1ee025dbd598566ccd02e26a1cbae6edfa5''
   \<and> read_ref ''demo'' hello_store2 = Some ''s_64290475''"
proof -
  have r: "demo_store0 ''demo'' = Some fresh_repo"
    by (simp add: demo_store0_def)
  have s1: "save_snapshot no_faults ''demo'' ''first'' hello_wd demo_store0
      = (Inr ''s_181379010'', hello_store1)"
    using hello_save1 by auto
  have s2: "save_snapshot no_faults ''demo'' ''first'' hello_wd hello_store1
      = (Inr ''s_64290475'', hello_store2)"
    using hello_save2 by auto
  obtain r1 where st: "hello_store1 = demo_store0(''demo'' \<mapsto> r1)"
    and sn: "snapshots r1 ''s_181379010''
           = Some \<lparr>snapshot_id = ''s_181379010'',
                   root_tree = ''e0e4c2a8fe9dcc6209a50aa7715fa1ee025dbd598566ccd02e26a1cbae6edfa5'',
                   parent = None, message = ''first'', timestamp = ''2025-12-19T09:00:00Z''\<rparr>"
    and rf: "ref_main r1 = Some ''s_181379010''"
    using hello_save1 by blast
  have sp: "strip ''s_181379010'' = ''s_181379010''"
    using snapshot_id_of_shape [OF hello_first_id] by simp
  have t1: "tree_of_ref ''demo'' hello_store1
      = Some ''e0e4c2a8fe9dcc6209a50aa7715fa1ee025dbd598566ccd02e26a1cbae6edfa5''"
    by (simp add: tree_of_ref_def st rf sp sn)
  from save_snapshot_deterministic [where fs = demo_store0 and fs' = demo_store0
      and name = "''demo''" and name' = "''demo''" and r = fresh_repo and r' = fresh_repo
      and io = no_faults and io' = no_faults and ?io2.0 = no_faults
      and msg = "''first''" and msg' = "''first''" and work_dir = hello_wd
      and sid = "''s_181379010''" and sid' = "''s_181379010''" and ?sid2.0 = "''s_64290475''"
      and ?fs1.0 = hello_store1 and fs1' = hello_store1 and ?fs2.0 = hello_store2,
      OF r r refl s1 s1 s2] t1 r s1 s2 hello_second_id
  show ?thesis
    by auto
qed

section \<open>Authorization: the roles that are granted\<close>

lemma not_admin_role:
  "v \<noteq> CStr (config_get cfg ''ADMIN_USERNAME'' ''admin'') \<Longrightarrow> get_user_role cfg v = GUEST"
  by (simp add: get_user_role_def)

lemma guest_only:
  "user ''sub'' \<noteq> Some (CStr (config_get cfg ''ADMIN_USERNAME'' ''admin''))
     \<Longrightarrow> has_permission cfg user p \<Longrightarrow> p = READ_REPO \<or> p = READ_PROFILE"
  by (cases "user ''sub''") (auto simp: has_permission_def not_admin_role split: if_splits)

lemma guest_exact:
  "user ''sub'' = Some u \<Longrightarrow> truthy u
     \<Longrightarrow> u \<noteq> CStr (config_get cfg ''ADMIN_USERNAME'' ''admin'')
     \<Longrightarrow> has_permission cfg user p = (p = READ_REPO \<or> p = READ_PROFILE)"
  by (auto simp: has_permission_def not_admin_role)

text \<open>
  Claim C10. \<open>get_user_role\<close> returns the admin role for the configured admin user name
  and the guest role for every other user name, so it never returns the role \<open>USER\<close>;
  for a principal other than the admin, \<open>has_permission\<close> succeeds only for
  \<open>read:repo\<close> and \<open>read:profile\<close>, and for a principal with a non-empty user name
  other than the admin's it succeeds exactly for these two.
\<close>

theorem non_admin_is_guest:
  "get_user_role cfg (CStr (config_get cfg ''ADMIN_USERNAME'' ''admin'')) = ADMIN
   \<and> (u \<noteq> CStr (config_get cfg ''ADMIN_USERNAME'' ''admin'') \<longrightarrow> get_user_role cfg u = GUEST)
   \<and> get_user_role cfg u \<noteq> USER
   \<and> (user ''sub'' \<noteq> Some (CStr (config_get cfg ''ADMIN_USERNAME'' ''admin''))
        \<longrightarrow> has_permission cfg user p \<longrightarrow> p = READ_REPO \<or> p = READ_PROFILE)
   \<and> (user ''sub'' = Some u \<and> truthy u \<and> u \<noteq> CStr (config_get cfg ''ADMIN_USERNAME'' ''admin'')
        \<longrightarrow> has_permission cfg user p = (p = READ_REPO \<or> p = READ_PROFILE))"
proof (intro conjI impI)
  show "get_user_role cfg (CStr (config_get cfg ''ADMIN_USERNAME'' ''admin'')) = ADMIN"
    by (simp add: get_user_role_def)
  show "get_user_role cfg u \<noteq> USER"
    by (simp add: get_user_role_def)
next
  assume "u \<noteq> CStr (config_get cfg ''ADMIN_USERNAME'' ''admin'')"
  then show "get_user_role cfg u = GUEST"
    by (rule not_admin_role)
next
  assume "user ''sub'' \<noteq> Some (CStr (config_get cfg ''ADMIN_USERNAME'' ''admin''))"
    and "has_permission cfg user p"
  then show "p = READ_REPO \<or> p = READ_PROFILE"
    by (rule guest_only)
next
  assume "user ''sub'' = Some u \<and> truthy u
            \<and> u \<noteq> CStr (config_get cfg ''ADMIN_USERNAME'' ''admin'')"
  then show "has_permission cfg user p = (p = READ_REPO \<or> p = READ_PROFILE)"
    using guest_exact [of user u cfg p] by blast
qed

theorem non_admin_is_guest_witness:
  "get_user_role Map.empty (CStr ''admin'') = ADMIN
   \<and> get_user_role Map.empty (CStr ''bob'') = GUEST
   \<and> has_permission Map.empty [''sub'' \<mapsto> CStr ''bob''] READ_REPO
   \<and> has_permission Map.empty [''sub'' \<mapsto> CStr ''bob''] READ_PROFILE
   \<and> \<not> has_permission Map.empty [''sub'' \<mapsto> CStr ''bob''] WRITE_REPO
   \<and> \<not> has_permission Map.empty [''sub'' \<mapsto> CStr ''bob''] CREATE_REPO"
  using non_admin_is_guest [of Map.empty "CStr ''bob''" "[''sub'' \<mapsto> CStr ''bob'']" READ_REPO]
    non_admin_is_guest [of Map.empty "CStr ''bob''" "[''sub'' \<mapsto> CStr ''bob'']" READ_PROFILE]
    non_admin_is_guest [of Map.empty "CStr ''bob''" "[''sub'' \<mapsto> CStr ''bob'']" WRITE_REPO]
    non_admin_is_guest [of Map.empty "CStr ''bob''" "[''sub'' \<mapsto> CStr ''bob'']" CREATE_REPO]
  by (simp add: config_get_def)

section \<open>Re-initialising a repository\<close>




section \<open>The device fingerprint\<close>

lemma split_chr_no_sep: "c \<notin> set p \<Longrightarrow> split_chr c p = [p]"
  by (induction p) auto

lemma split_chr_append:
  "c \<notin> set p \<Longrightarrow> split_chr c (p @ c # rest) = p # split_chr c rest"
  by (induction p) auto

lemma split_join_gen:
  "sep = [c] \<Longrightarrow> parts \<noteq> [] \<Longrightarrow> \<forall>p \<in> set parts. c \<notin> set p
     \<Longrightarrow> split_chr c (join sep parts) = parts"
  by (induction sep parts rule: join.induct) (simp_all add: split_chr_no_sep split_chr_append)

lemma split_join:
  "parts \<noteq> [] \<Longrightarrow> \<forall>p \<in> set parts. c \<notin> set p \<Longrightarrow> split_chr c (join [c] parts) = parts"
  by (rule split_join_gen) simp_all

lemma join_mem: "x \<in> set (join sep parts) \<Longrightarrow> x \<in> set sep \<or> (\<exists>p \<in> set parts. x \<in> set p)"
  by (induction sep parts rule: join.induct) auto

lemma sep_in_join: "2 \<le> length parts \<Longrightarrow> c \<in> set (join [c] parts)"
  by (cases parts; cases "tl parts") auto

lemma partial_ip_v4:
  assumes "parts \<noteq> []" and "\<forall>p \<in> set parts. CHR ''.'' \<notin> set p \<and> CHR '':'' \<notin> set p"
  shows "partial_ip (join ''.'' parts) = join ''.'' (take 3 parts)"
proof -
  have "CHR '':'' \<notin> set (join ''.'' parts)"
    using assms(2) join_mem [of "CHR '':''" "''.''" parts] by auto
  moreover have "split_chr CHR ''.'' (join ''.'' parts) = parts"
    using assms by (simp add: split_join)
  ultimately show ?thesis
    by (simp add: partial_ip_def)
qed

lemma partial_ip_v6:
  assumes "2 \<le> length groups" and "\<forall>g \<in> set groups. CHR '':'' \<notin> set g"
  shows "partial_ip (join '':'' groups) = join '':'' (take 6 groups)"
proof -
  have "CHR '':'' \<in> set (join '':'' groups)"
    using assms(1) by (rule sep_in_join)
  moreover have "split_chr CHR '':'' (join '':'' groups) = groups"
    using assms by (intro split_join) auto
  ultimately show ?thesis
    by (simp add: partial_ip_def)
qed

lemma generate_no_signals:
  "generate \<lparr>headers = [], client_host = None\<rparr>
     = ''565d240f5343e625ae579a4d45a770f1f02c6368b5ed4d06da4fbe6f47c28866''"
  by code_simp

lemma sha256_three_separators:
  "sha256_hex (encode ([] @ ''|'' @ [] @ ''|'' @ [] @ ''|'' @ []))
     = ''be5be69f55e91af25e54ecc2154d4da359b67b3b27e25f5cc0b3ff54eb74dff3''"
  by code_simp

text \<open>
  Claim C8, as stated, fails for a request without a peer address: the claim hashes
  three separators around four empty segments, the code hashes the three remaining
  segments joined by two separators.
\<close>

theorem missing_peer_drops_segment:
  "generate \<lparr>headers = [], client_host = None\<rparr>
     \<noteq> sha256_hex (encode ([] @ ''|'' @ [] @ ''|'' @ [] @ ''|'' @ []))"
  unfolding generate_no_signals sha256_three_separators by simp

text \<open>
  Claim C8, amended. The fingerprint is the SHA-256 of the user agent, the partial
  address, the accepted languages and the accepted encodings joined by \<open>|\<close>, a missing
  header giving an empty segment; when the request has no peer address, or an empty one,
  the address segment and its separator are left out. The partial address is the first
  three dot-separated parts of an address without a colon, and the first six
  colon-separated groups of an address with one.
\<close>

theorem generate_joins_signals:
  "generate req =
     sha256_hex (encode
       (header_get req ''user-agent'' [] @ ''|''
        @ (case client_host req of
             None \<Rightarrow> []
           | Some ip \<Rightarrow> if ip = [] then [] else partial_ip ip @ ''|'')
        @ header_get req ''accept-language'' [] @ ''|''
        @ header_get req ''accept-encoding'' []))
   \<and> (map_of (headers req) key = None \<longrightarrow> header_get req key [] = [])
   \<and> (parts \<noteq> [] \<and> (\<forall>p \<in> set parts. CHR ''.'' \<notin> set p \<and> CHR '':'' \<notin> set p)
        \<longrightarrow> partial_ip (join ''.'' parts) = join ''.'' (take 3 parts))
   \<and> (2 \<le> length groups \<and> (\<forall>g \<in> set groups. CHR '':'' \<notin> set g)
        \<longrightarrow> partial_ip (join '':'' groups) = join '':'' (take 6 groups))"
proof (intro conjI impI)
  show "generate req =
     sha256_hex (encode
       (header_get req ''user-agent'' [] @ ''|''
        @ (case client_host req of
             None \<Rightarrow> []
           | Some ip \<Rightarrow> if ip = [] then [] else partial_ip ip @ ''|'')
        @ header_get req ''accept-language'' [] @ ''|''
        @ header_get req ''accept-encoding'' []))"
    by (simp add: generate_def components_def split: option.split)
next
  assume "map_of (headers req) key = None"
  then show "header_get req key [] = []"
    by (simp add: header_get_def)
next
  assume "parts \<noteq> [] \<and> (\<forall>p \<in> set parts. CHR ''.'' \<notin> set p \<and> CHR '':'' \<notin> set p)"
  then show "partial_ip (join ''.'' parts) = join ''.'' (take 3 parts)"
    by (simp add: partial_ip_v4)
next
  assume "2 \<le> length groups \<and> (\<forall>g \<in> set groups. CHR '':'' \<notin> set g)"
  then show "partial_ip (join '':'' groups) = join '':'' (take 6 groups)"
    by (simp add: partial_ip_v6)
qed

theorem generate_joins_signals_witness:
  "generate curl_request = sha256_hex (encode ''curl/8.0|192.168.1||gzip'')
   \<and> map_of (headers curl_request) ''accept-language'' = None
   \<and> header_get curl_request ''accept-language'' [] = []
   \<and> partial_ip ''192.168.1.77'' = ''192.168.1''
   \<and> partial_ip ''2001:db8:0:1:2:3:4:5'' = ''2001:db8:0:1:2:3''"
  using generate_joins_signals [of curl_request "''accept-language''"
      "[''192'', ''168'', ''1'', ''77'']"
      "[''2001'', ''db8'', ''0'', ''1'', ''2'', ''3'', ''4'', ''5'']"]
  by (simp add: curl_request_def header_get_def)

section \<open>Verifying an access token\<close>

lemma minted_fpt:
  "((data(''exp'' \<mapsto> e, ''fpt'' \<mapsto> CStr F))
      ++ (if su then [''step_up'' \<mapsto> CBool True, ''step_up_at'' \<mapsto> t] else Map.empty)) ''fpt''
     = Some (CStr F)"
  by (simp add: map_add_def)

lemma verify_token_error:
  "jwt_decode token = Inl e \<Longrightarrow>
     \<exists>d. verify_token jwt_decode token req_opt = Inl \<lparr>status_code = 401, detail = d\<rparr>"
  by (cases e) (simp_all add: verify_token_def)

lemma verify_token_mismatch:
  "jwt_decode token = Inr pl \<Longrightarrow> pl ''fpt'' = Some (CStr F) \<Longrightarrow> get_fingerprint req \<noteq> F \<Longrightarrow>
     verify_token jwt_decode token (Some req)
       = Inl \<lparr>status_code = 401, detail = ''Device fingerprint mismatch''\<rparr>"
  by (auto simp: verify_token_def)

lemma verify_token_no_request:
  "verify_token jwt_decode token None =
     (case jwt_decode token of
        Inl ExpiredSignatureError \<Rightarrow> Inl \<lparr>status_code = 401, detail = ''Token expired''\<rparr>
      | Inl InvalidTokenError \<Rightarrow> Inl \<lparr>status_code = 401, detail = ''Invalid token''\<rparr>
      | Inr pl \<Rightarrow> Inr pl)"
  by (simp add: verify_token_def split: sum.split jwt_error.split)

lemma minted_token_rejected:
  assumes lib: "jwt_decode (jwt_encode pl) = Inr pl \<or> (\<exists>e. jwt_decode (jwt_encode pl) = Inl e)"
    and fpt: "pl ''fpt'' = Some (CStr F)"
    and diff: "get_fingerprint req \<noteq> F"
  shows "\<exists>d. verify_token jwt_decode (jwt_encode pl) (Some req)
              = Inl \<lparr>status_code = 401, detail = d\<rparr>"
  using lib
proof
  assume "jwt_decode (jwt_encode pl) = Inr pl"
  then have "verify_token jwt_decode (jwt_encode pl) (Some req)
        = Inl \<lparr>status_code = 401, detail = ''Device fingerprint mismatch''\<rparr>"
    using fpt diff by (rule verify_token_mismatch)
  then show ?thesis ..
next
  assume "\<exists>e. jwt_decode (jwt_encode pl) = Inl e"
  then obtain e where "jwt_decode (jwt_encode pl) = Inl e" ..
  then show ?thesis by (rule verify_token_error)
qed

text \<open>
  Claim C7. Let the JWT library decode a token it signed to the signed payload, unless
  it raises. Then a token minted by \<open>create_access_token\<close> with the fingerprint \<open>F\<close>,
  verified with a request whose fingerprint is not \<open>F\<close>, fails with status 401; and
  without a request \<open>verify_token\<close> returns the payload of every token that decodes,
  whatever its fingerprint claim, and fails with 401 on an expired or invalid one.
\<close>

theorem verify_token_binds_fingerprint:
  assumes "\<And>pl. jwt_decode (jwt_encode pl) = Inr pl \<or> (\<exists>e. jwt_decode (jwt_encode pl) = Inl e)"
    and "get_fingerprint req \<noteq> F"
  shows "(\<exists>d. verify_token jwt_decode (create_access_token jwt_encode now data F delta su) (Some req)
              = Inl \<lparr>status_code = 401, detail = d\<rparr>)
         \<and> verify_token jwt_decode token None =
             (case jwt_decode token of
                Inl ExpiredSignatureError \<Rightarrow> Inl \<lparr>status_code = 401, detail = ''Token expired''\<rparr>
              | Inl InvalidTokenError \<Rightarrow> Inl \<lparr>status_code = 401, detail = ''Invalid token''\<rparr>
              | Inr pl \<Rightarrow> Inr pl)"
proof
  show "\<exists>d. verify_token jwt_decode (create_access_token jwt_encode now data F delta su) (Some req)
              = Inl \<lparr>status_code = 401, detail = d\<rparr>"
  proof -
    let ?pl = "(data(''exp'' \<mapsto> CNum (now + (case delta of
                                          None \<Rightarrow> ACCESS_TOKEN_EXPIRE_MINUTES * 60
                                        | Some d \<Rightarrow> d)),
              ''fpt'' \<mapsto> CStr F))
        ++ (if su then [''step_up'' \<mapsto> CBool True, ''step_up_at'' \<mapsto> CNum now]
            else Map.empty)"
    have lib: "jwt_decode (jwt_encode ?pl) = Inr ?pl \<or> (\<exists>e. jwt_decode (jwt_encode ?pl) = Inl e)"
      by (rule assms(1))
    have fpt: "?pl ''fpt'' = Some (CStr F)"
      by (rule minted_fpt)
    have tok: "create_access_token jwt_encode now data F delta su = jwt_encode ?pl"
      by (simp only: create_access_token_def)
    show ?thesis
      unfolding tok
      by (rule minted_token_rejected [where jwt_decode = jwt_decode and jwt_encode = jwt_encode
            and pl = ?pl and F = F and req = req, OF lib fpt assms(2)])
  qed
next
  show "verify_token jwt_decode token None =
             (case jwt_decode token of
                Inl ExpiredSignatureError \<Rightarrow> Inl \<lparr>status_code = 401, detail = ''Token expired''\<rparr>
              | Inl InvalidTokenError \<Rightarrow> Inl \<lparr>status_code = 401, detail = ''Invalid token''\<rparr>
              | Inr pl \<Rightarrow> Inr pl)"
    by (rule verify_token_no_request)
qed

theorem verify_token_binds_fingerprint_witness:
  "get_fingerprint \<lparr>headers = [], client_host = None\<rparr> \<noteq> ''X''
   \<and> (\<exists>d. verify_token Inr
            (create_access_token (\<lambda>pl. pl) 1000 [''sub'' \<mapsto> CStr ''admin''] ''X'' None False)
            (Some \<lparr>headers = [], client_host = None\<rparr>)
          = Inl \<lparr>status_code = 401, detail = d\<rparr>)
   \<and> verify_token Inr [''sub'' \<mapsto> CStr ''admin'', ''fpt'' \<mapsto> CStr ''X''] None
       = Inr [''sub'' \<mapsto> CStr ''admin'', ''fpt'' \<mapsto> CStr ''X'']"
proof -
  have fp: "get_fingerprint \<lparr>headers = [], client_host = None\<rparr> \<noteq> ''X''"
    unfolding get_fingerprint_def generate_no_signals by simp
  have lib: "\<And>pl :: payload. Inr ((\<lambda>pl. pl) pl) = (Inr pl :: jwt_error + payload)
                \<or> (\<exists>e. (Inr ((\<lambda>pl. pl) pl) :: jwt_error + payload) = Inl e)"
    by simp
  from verify_token_binds_fingerprint [of Inr "\<lambda>pl. pl", OF lib fp,
      of 1000 "[''sub'' \<mapsto> CStr ''admin'']" None False
         "[''sub'' \<mapsto> CStr ''admin'', ''fpt'' \<mapsto> CStr ''X'']"] fp
  show ?thesis by simp
qed

end
